theory Spec2Isabelle
  imports Complex_Main
begin

section \<open>Numbers\<close>

text \<open>
  Python floats are modelled by the reals: the arithmetic of the source is read exactly,
  without binary rounding. \<open>round\<close> is Python 3's built-in (ties go to the even
  integer), \<open>int\<close> truncates toward zero.
\<close>

definition py_round :: "real \<Rightarrow> int" where
  "py_round x =
     (let f = \<lfloor>x\<rfloor> in
      if x - of_int f < 1 / 2 then f
      else if 1 / 2 < x - of_int f then f + 1
      else if even f then f else f + 1)"

definition py_int :: "real \<Rightarrow> int" where
  "py_int x = (if 0 \<le> x then \<lfloor>x\<rfloor> else \<lceil>x\<rceil>)"

section \<open>Annotation records\<close>

text \<open>
  \<open>coordinates_original\<close> of a record file is a JSON list, either of scalars
  (\<open>[x1, y1, x2, y2]\<close>, what the labeling app stores for rectangles and lines) or of
  \<open>[x, y]\<close> pairs (what it stores for freehand strokes). A missing key, or \<open>null\<close>,
  is \<open>None\<close>.
\<close>

datatype coords = Scalars "real list" | Pairs "(real \<times> real) list"

fun len_coords :: "coords \<Rightarrow> nat" where
  "len_coords (Scalars xs) = length xs"
| "len_coords (Pairs ps) = length ps"

record annotation =
  label :: "string option"
  ann_type :: "string option"
  coordinates_original :: "coords option"

record ann_data =
  annotations :: "annotation list option"
  original_size :: "int list option"

section \<open>mask\_generator\_json\_to\_mask.py\<close>

subsection \<open>The raster and the drawing primitives\<close>

text \<open>
  The raster is the array \<open>np.zeros((height, width), dtype=np.uint8)\<close> together with
  the drawing calls the function has issued on it, oldest first. OpenCV's primitives are
  library code, not code of this repository: the model records each call with its
  arguments and leaves the stroke rasterisation of \<open>cv2.line\<close> and \<open>cv2.polylines\<close>
  uninterpreted.
\<close>

type_synonym point = "int \<times> int"

datatype draw_call =
    Rectangle point point int
  | Line point point int int
  | Polylines "point list" int int

record mask =
  rows :: nat
  cols :: nat
  calls :: "draw_call list"

definition np_zeros :: "int \<Rightarrow> int \<Rightarrow> mask" where
  "np_zeros height width = \<lparr>rows = nat height, cols = nat width, calls = []\<rparr>"

definition draw :: "draw_call \<Rightarrow> mask \<Rightarrow> mask" where
  "draw c m = m\<lparr>calls := calls m @ [c]\<rparr>"

text \<open>
  Reading a pixel back. A filled \<open>cv2.rectangle\<close> sets every pixel of the raster between
  its two corners, both corners included, to the colour, saturated to the range of
  \<open>uint8\<close>. The pixels a stroke covers are not modelled: a pixel whose value depends on a
  stroke reads as \<open>None\<close>. The list is the calls, newest first.
\<close>

definition saturate_uint8 :: "int \<Rightarrow> nat" where
  "saturate_uint8 c = nat (max 0 (min 255 c))"

fun paint :: "draw_call list \<Rightarrow> int \<Rightarrow> int \<Rightarrow> nat option" where
  "paint [] x y = Some 0"
| "paint (Rectangle (x1, y1) (x2, y2) c # earlier) x y =
     (if min x1 x2 \<le> x \<and> x \<le> max x1 x2 \<and> min y1 y2 \<le> y \<and> y \<le> max y1 y2
      then Some (saturate_uint8 c) else paint earlier x y)"
| "paint (Line p q c t # earlier) x y = None"
| "paint (Polylines ps c t # earlier) x y = None"

definition mask_pixel :: "mask \<Rightarrow> int \<Rightarrow> int \<Rightarrow> nat option" where
  "mask_pixel m x y =
     (if 0 \<le> x \<and> x < int (cols m) \<and> 0 \<le> y \<and> y < int (rows m)
      then paint (rev (calls m)) x y else None)"

subsection \<open>create\_mask\_from\_annotations\<close>

datatype log_msg =
    Info_size_from_file
  | Error_size_missing
  | Error_invalid_size
  | Info_no_annotations
  | Warning_incomplete nat
  | Warning_label string
  | Warning_rectangle nat
  | Warning_line nat
  | Warning_freehand nat
  | Warning_type string
  | Error_drawing nat

text \<open>
  The body of the loop over \<open>enumerate(img_info["annotations"])\<close>. An exception raised
  inside the \<open>try\<close> (here: \<open>round\<close> applied to a pair, or \<open>cv2.polylines\<close> given a
  flat array) is caught, logged, and leaves the raster as it was.
\<close>

definition draw_annotation ::
  "(string \<rightharpoonup> int) \<Rightarrow> int \<Rightarrow> nat \<Rightarrow> annotation \<Rightarrow> mask \<times> log_msg list
     \<Rightarrow> mask \<times> log_msg list" where
  "draw_annotation class_to_id_mapping line_thickness ann_idx ann st =
     (case st of (m, lg) \<Rightarrow>
      (case (label ann, ann_type ann, coordinates_original ann) of
         (Some lbl, Some ty, Some cs) \<Rightarrow>
           if lbl = [] \<or> ty = [] then (m, lg @ [Warning_incomplete ann_idx])
           else
            (case class_to_id_mapping lbl of
               None \<Rightarrow> (m, lg @ [Warning_label lbl])
             | Some class_id \<Rightarrow>
                 if ty = ''rectangle'' then
                   (if len_coords cs = 4 then
                      (case cs of
                         Scalars [a, b, c, d] \<Rightarrow>
                           (let x1 = py_round a; y1 = py_round b;
                                x2 = py_round c; y2 = py_round d;
                                pt1 = (min x1 x2, min y1 y2);
                                pt2 = (max x1 x2, max y1 y2)
                            in (draw (Rectangle pt1 pt2 class_id) m, lg))
                       | _ \<Rightarrow> (m, lg @ [Error_drawing ann_idx]))
                    else (m, lg @ [Warning_rectangle ann_idx]))
                 else if ty = ''line'' then
                   (if len_coords cs = 4 then
                      (case cs of
                         Scalars [a, b, c, d] \<Rightarrow>
                           (let x1 = py_round a; y1 = py_round b;
                                x2 = py_round c; y2 = py_round d
                            in (draw (Line (x1, y1) (x2, y2) class_id line_thickness) m, lg))
                       | _ \<Rightarrow> (m, lg @ [Error_drawing ann_idx]))
                    else (m, lg @ [Warning_line ann_idx]))
                 else if ty = ''freehand'' then
                   (if 2 \<le> len_coords cs then
                      (case cs of
                         Pairs ps \<Rightarrow>
                           (let points_int = map (\<lambda>(x, y). (py_round x, py_round y)) ps
                            in (draw (Polylines points_int class_id line_thickness) m, lg))
                       | Scalars xs \<Rightarrow> (m, lg @ [Error_drawing ann_idx]))
                    else (m, lg @ [Warning_freehand ann_idx]))
                 else (m, lg @ [Warning_type ty]))
       | _ \<Rightarrow> (m, lg @ [Warning_incomplete ann_idx])))"

fun draw_annotations ::
  "(string \<rightharpoonup> int) \<Rightarrow> int \<Rightarrow> nat \<Rightarrow> annotation list \<Rightarrow> mask \<times> log_msg list
     \<Rightarrow> mask \<times> log_msg list" where
  "draw_annotations tbl t ann_idx [] st = st"
| "draw_annotations tbl t ann_idx (ann # anns) st =
     draw_annotations tbl t (Suc ann_idx) anns (draw_annotation tbl t ann_idx ann st)"

text \<open>
  \<open>file_size\<close> stands for the fallback on the image file: \<open>Some (width, height)\<close> when
  \<open>image_dir\<close> is given and \<open>cv2.imread\<close> reads the image there, \<open>None\<close> otherwise.
  The result is the returned pair (\<open>None\<close> for \<open>return None, None\<close>) and the log.
\<close>

definition create_mask_from_annotations ::
  "ann_data \<Rightarrow> (string \<rightharpoonup> int) \<Rightarrow> int \<Rightarrow> (int \<times> int) option
     \<Rightarrow> (mask \<times> int \<times> int) option \<times> log_msg list" where
  "create_mask_from_annotations annotation_data class_to_id_mapping line_thickness file_size =
     (let sized =
        (case original_size annotation_data of
           Some [w, h] \<Rightarrow> Some ((w, h), [])
         | _ \<Rightarrow>
            (case file_size of
               Some (w, h) \<Rightarrow> Some ((w, h), [Info_size_from_file])
             | None \<Rightarrow> None))
      in case sized of
           None \<Rightarrow> (None, [Error_size_missing])
         | Some ((width, height), lg) \<Rightarrow>
             if width \<le> 0 \<or> height \<le> 0 then (None, lg @ [Error_invalid_size])
             else
               (let m = np_zeros height width in
                case annotations annotation_data of
                  None \<Rightarrow> (Some (m, width, height), lg @ [Info_no_annotations])
                | Some [] \<Rightarrow> (Some (m, width, height), lg @ [Info_no_annotations])
                | Some anns \<Rightarrow>
                    (case draw_annotations class_to_id_mapping line_thickness 0 anns (m, lg) of
                       (m', lg') \<Rightarrow> (Some (m', width, height), lg'))))"

text \<open>The module's \<open>CLASS_MAPPING\<close> and \<open>DEFAULT_LINE_THICKNESS\<close>.\<close>

definition CLASS_MAPPING :: "(string \<times> int) list" where
  "CLASS_MAPPING =
     [(''background'', 0), (''lines'', 1), (''object'', 2), (''person'', 3),
      (''vehicle'', 4), (''animal'', 5), (''marker'', 6), (''path'', 7)]"

definition DEFAULT_LINE_THICKNESS :: int where
  "DEFAULT_LINE_THICKNESS = 5"

text \<open>The scenario of the specification: one rectangle labelled \<open>lines\<close> on a 100 by 100 image.\<close>

definition scenario_record :: "coords \<Rightarrow> ann_data" where
  "scenario_record cs =
     \<lparr>annotations = Some [\<lparr>label = Some ''lines'', ann_type = Some ''rectangle'',
                            coordinates_original = Some cs\<rparr>],
      original_size = Some [100, 100]\<rparr>"

definition scenario_class_table :: "string \<rightharpoonup> int" where
  "scenario_class_table = [''lines'' \<mapsto> 1]"












subsection \<open>start\_mask\_generation: the visually distinct raster\<close>

text \<open>
  \<open>visual_mask\<close> starts as zeros; for every item of \<open>CLASS_MAPPING\<close> with a non-zero
  id, the pixels whose raw value is that id are set to \<open>int(class_id * scale_factor)\<close>.
  \<open>visual_mask_value\<close> is the value the loop leaves in a pixel whose raw value is \<open>raw\<close>.
\<close>

definition num_classes :: int where
  "num_classes = int (length CLASS_MAPPING) - 1"

definition scale_factor :: real where
  "scale_factor = (if 0 < num_classes then 255 / real_of_int num_classes else 255)"

fun visual_mask_loop :: "(string \<times> int) list \<Rightarrow> int \<Rightarrow> int \<Rightarrow> int" where
  "visual_mask_loop [] raw visual = visual"
| "visual_mask_loop ((class_name, class_id) # items) raw visual =
     visual_mask_loop items raw
       (if class_id \<noteq> 0 \<and> raw = class_id
        then py_int (real_of_int class_id * scale_factor) else visual)"

definition visual_mask_value :: "int \<Rightarrow> int" where
  "visual_mask_value raw = visual_mask_loop CLASS_MAPPING raw 0"

section \<open>json\_generator\_mask\_to\_json.py\<close>

text \<open>
  A contour is the ordered list of its points. The extraction itself
  (\<open>cv2.inRange\<close> followed by \<open>cv2.findContours\<close> with \<open>RETR_EXTERNAL\<close>) is library
  code: the mask image is given by its shape and, for every pixel value, the external
  contours the library finds for it. \<open>cv2.contourArea\<close> is the area by Green's formula,
  half the absolute value of the sum of the cross products of consecutive points.
\<close>

type_synonym contour = "point list"

record mask_image =
  shape :: "int \<times> int"
  external_contours :: "int \<Rightarrow> contour list"

fun cross_sum :: "point \<Rightarrow> contour \<Rightarrow> int" where
  "cross_sum prev [] = 0"
| "cross_sum (px, py) ((x, y) # ps) = (px * y - py * x) + cross_sum (x, y) ps"

definition contourArea :: "contour \<Rightarrow> real" where
  "contourArea c = (if c = [] then 0 else \<bar>real_of_int (cross_sum (last c) c)\<bar> / 2)"

text \<open>
  \<open>contour.squeeze().tolist()\<close>: the array of a contour has shape \<open>(n, 1, 2)\<close>; squeezing
  drops every axis of length one, so a contour of one point becomes the flat list
  \<open>[x, y]\<close> and any other becomes the list of its \<open>[x, y]\<close> pairs.
\<close>

datatype squeezed = Flat "int list" | Nested "int list list"

definition squeeze_tolist :: "contour \<Rightarrow> squeezed" where
  "squeeze_tolist c =
     (case c of [(x, y)] \<Rightarrow> Flat [x, y] | _ \<Rightarrow> Nested (map (\<lambda>(x, y). [x, y]) c))"

text \<open>\<open>if not isinstance(coordinates[0], list): coordinates = [coordinates]\<close>\<close>

fun normalize_coordinates :: "squeezed \<Rightarrow> int list list" where
  "normalize_coordinates (Flat v) = [v]"
| "normalize_coordinates (Nested ps) = ps"

record contour_annotation =
  contour_label :: string
  contour_type :: string
  contour_coordinates :: "int list list"

record json_data =
  json_annotations :: "contour_annotation list"
  json_original_size :: "int list"

fun contour_annotations :: "string \<Rightarrow> contour list \<Rightarrow> contour_annotation list" where
  "contour_annotations lbl [] = []"
| "contour_annotations lbl (c # cs) =
     (if contourArea c < 4 then contour_annotations lbl cs
      else \<lparr>contour_label = lbl, contour_type = ''freehand'',
            contour_coordinates = normalize_coordinates (squeeze_tolist c)\<rparr>
           # contour_annotations lbl cs)"

text \<open>\<open>class_mapping\<close> is the dictionary from pixel value to label, in insertion order.\<close>

definition convert_mask_to_json_data :: "mask_image \<Rightarrow> (int \<times> string) list \<Rightarrow> json_data" where
  "convert_mask_to_json_data img class_mapping =
     (case shape img of (height, width) \<Rightarrow>
        \<lparr>json_annotations =
           concat (map (\<lambda>(pixel_value, lbl).
                          contour_annotations lbl (external_contours img pixel_value))
                       class_mapping),
         json_original_size = [width, height]\<rparr>)"

text \<open>A mask whose only foreground is one isolated pixel of value 255 at (3, 4).\<close>

definition isolated_pixel_mask :: mask_image where
  "isolated_pixel_mask =
     \<lparr>shape = (10, 10),
      external_contours = (\<lambda>v. if v = 255 then [[(3, 4)]] else [])\<rparr>"

section \<open>labeling\_app.py\<close>

subsection \<open>State\<close>

text \<open>
  The fields of \<open>LabelingApp\<close> that the view transform and the annotation store use.
  The loaded image is represented by its size \<open>(width, height)\<close>; \<open>self.annotations\<close> is
  a dictionary in insertion order, from the base name of an image to its record;
  \<open>start_x_canvas\<close> and \<open>start_y_canvas\<close> are set and cleared together and form one
  optional pair. The size of the canvas is not a field: it is read from the widget, and
  every operation that reads it takes it as \<open>canvas_width\<close> and \<open>canvas_height\<close>.
  Pointer positions are canvas coordinates (the canvas is not scrolled).
\<close>

definition MIN_ZOOM_LEVEL :: real where
  "MIN_ZOOM_LEVEL = 2 / 100"

definition MAX_ZOOM_LEVEL :: real where
  "MAX_ZOOM_LEVEL = 100"

datatype py_error = TypeError | AttributeError | KeyError

record app =
  current_image_path :: "string option"
  original_pil_image :: "(int \<times> int) option"
  image_files :: "string list"
  self_annotations :: "(string \<times> ann_data) list"
  has_unsaved_changes :: bool
  base_scale_factor :: real
  zoom_level :: real
  effective_scale :: real
  view_offset_x :: real
  view_offset_y :: real
  last_crop_box_original_coords :: "(int \<times> int \<times> int \<times> int) option"
  pan_start_x_view_root :: real
  pan_start_y_view_root :: real
  pan_initial_offset_x :: real
  pan_initial_offset_y :: real
  is_panning :: bool
  start_canvas :: "(real \<times> real) option"
  current_freehand_points_canvas :: "(real \<times> real) list"
  drawing_tool_var :: string
  current_class_var :: string
  hovered_ann_tag :: "string option"

text \<open>Assignment to a dictionary key: in place for a key that exists, at the end otherwise.\<close>

fun dict_set :: "'k \<Rightarrow> 'v \<Rightarrow> ('k \<times> 'v) list \<Rightarrow> ('k \<times> 'v) list" where
  "dict_set k v [] = [(k, v)]"
| "dict_set k v ((k', v') # kvs) =
     (if k' = k then (k, v) # kvs else (k', v') # dict_set k v kvs)"

text \<open>\<open>os.path.basename\<close> and the root of \<open>os.path.splitext\<close>, for POSIX paths.\<close>

definition basename :: "string \<Rightarrow> string" where
  "basename p = rev (takeWhile (\<lambda>c. c \<noteq> CHR ''/'') (rev p))"

definition splitext_root :: "string \<Rightarrow> string" where
  "splitext_root p =
     (let ext = takeWhile (\<lambda>c. c \<noteq> CHR ''.'') (rev p);
          root = rev (drop (Suc (length ext)) (rev p))
      in if CHR ''.'' \<in> set p \<and> \<not> list_all (\<lambda>c. c = CHR ''.'') root then root else p)"

subsection \<open>The view transform\<close>

text \<open>
  The crop box that \<open>refresh_display\<close> computes from the scale, the offsets, the size of
  the canvas and the size of the image: rounded to integer bounds, clamped to the image,
  at least one pixel wide and high.
\<close>

definition crop_box ::
  "int \<Rightarrow> int \<Rightarrow> real \<Rightarrow> real \<Rightarrow> real \<Rightarrow> int \<Rightarrow> int \<Rightarrow> int \<times> int \<times> int \<times> int" where
  "crop_box canvas_width canvas_height current_display_effective_scale offset_x offset_y
       img_w img_h =
     (let target_crop_w_orig_f = real_of_int canvas_width / current_display_effective_scale;
          target_crop_h_orig_f = real_of_int canvas_height / current_display_effective_scale;
          crop_orig_x1_f = (- offset_x) / current_display_effective_scale;
          crop_orig_y1_f = (- offset_y) / current_display_effective_scale;
          crop_orig_x1_int = py_round crop_orig_x1_f;
          crop_orig_y1_int = py_round crop_orig_y1_f;
          crop_w_int = max 1 (py_round target_crop_w_orig_f);
          crop_h_int = max 1 (py_round target_crop_h_orig_f);
          crop_orig_x2_int = crop_orig_x1_int + crop_w_int;
          crop_orig_y2_int = crop_orig_y1_int + crop_h_int;
          final_crop_x1 = max 0 (min img_w crop_orig_x1_int);
          final_crop_y1 = max 0 (min img_h crop_orig_y1_int);
          final_crop_x2 = max 0 (min img_w crop_orig_x2_int);
          final_crop_y2 = max 0 (min img_h crop_orig_y2_int);
          final_crop_x2 = (if final_crop_x2 \<le> final_crop_x1 then final_crop_x1 + 1
                           else final_crop_x2);
          final_crop_y2 = (if final_crop_y2 \<le> final_crop_y1 then final_crop_y1 + 1
                           else final_crop_y2);
          final_crop_x2 = min img_w final_crop_x2;
          final_crop_y2 = min img_h final_crop_y2;
          final_crop_x1 = (if 0 < final_crop_x2 then min final_crop_x1 (final_crop_x2 - 1)
                           else final_crop_x1);
          final_crop_y1 = (if 0 < final_crop_y2 then min final_crop_y1 (final_crop_y2 - 1)
                           else final_crop_y1);
          final_crop_x1 = max 0 final_crop_x1;
          final_crop_y1 = max 0 final_crop_y1
      in (final_crop_x1, final_crop_y1, final_crop_x2, final_crop_y2))"

text \<open>
  Of \<open>refresh_display\<close> the model keeps what it does to the state: it publishes the crop
  box, or clears it when there is no image, the canvas is not laid out, or the scale is
  degenerate. The rendering itself is not modelled.
\<close>

definition refresh_display :: "int \<Rightarrow> int \<Rightarrow> app \<Rightarrow> app" where
  "refresh_display canvas_width canvas_height s =
     (case original_pil_image s of
        None \<Rightarrow> s\<lparr>last_crop_box_original_coords := None\<rparr>
      | Some (img_w, img_h) \<Rightarrow>
          if canvas_width \<le> 1 \<or> canvas_height \<le> 1 \<or> \<bar>effective_scale s\<bar> < 1 / 10 ^ 9
          then s\<lparr>last_crop_box_original_coords := None\<rparr>
          else s\<lparr>last_crop_box_original_coords :=
                   Some (crop_box canvas_width canvas_height (effective_scale s)
                           (view_offset_x s) (view_offset_y s) img_w img_h)\<rparr>)"

definition view_to_original_coords ::
  "int \<Rightarrow> int \<Rightarrow> app \<Rightarrow> real \<times> real \<Rightarrow> real \<times> real" where
  "view_to_original_coords canvas_width canvas_height s p =
     (case p of (canvas_x, canvas_y) \<Rightarrow>
      (case (original_pil_image s, last_crop_box_original_coords s) of
         (Some img, Some (crop_ox1, crop_oy1, crop_ox2, crop_oy2)) \<Rightarrow>
           if \<bar>effective_scale s\<bar> < 1 / 10 ^ 9
           then ((canvas_x - view_offset_x s) / (1 / 10 ^ 9),
                 (canvas_y - view_offset_y s) / (1 / 10 ^ 9))
           else
             (let cropped_width_orig = crop_ox2 - crop_ox1;
                  cropped_height_orig = crop_oy2 - crop_oy1
              in if canvas_width \<le> 0 \<or> canvas_height \<le> 0
                    \<or> cropped_width_orig \<le> 0 \<or> cropped_height_orig \<le> 0
                 then ((canvas_x - view_offset_x s) / effective_scale s,
                       (canvas_y - view_offset_y s) / effective_scale s)
                 else
                   (let prop_x = canvas_x / real_of_int canvas_width;
                        prop_y = canvas_y / real_of_int canvas_height
                    in (real_of_int crop_ox1 + prop_x * real_of_int cropped_width_orig,
                        real_of_int crop_oy1 + prop_y * real_of_int cropped_height_orig)))
       | _ \<Rightarrow> (canvas_x, canvas_y)))"

text \<open>The result \<open>None, None\<close> of the source is \<open>None\<close>.\<close>

definition original_to_view_coords ::
  "int \<Rightarrow> int \<Rightarrow> app \<Rightarrow> real \<times> real \<Rightarrow> (real \<times> real) option" where
  "original_to_view_coords canvas_width canvas_height s p =
     (case p of (original_x, original_y) \<Rightarrow>
      (case (original_pil_image s, last_crop_box_original_coords s) of
         (Some img, Some (crop_ox1, crop_oy1, crop_ox2, crop_oy2)) \<Rightarrow>
           if \<bar>effective_scale s\<bar> < 1 / 10 ^ 9 then None
           else
             (let cropped_width_orig = crop_ox2 - crop_ox1;
                  cropped_height_orig = crop_oy2 - crop_oy1
              in if cropped_width_orig \<le> 0 \<or> cropped_height_orig \<le> 0
                    \<or> canvas_width \<le> 0 \<or> canvas_height \<le> 0
                 then None
                 else
                   (let epsilon = 1 / 10 ^ 9 in
                    if \<not> (real_of_int crop_ox1 - epsilon \<le> original_x
                            \<and> original_x \<le> real_of_int crop_ox2 + epsilon
                            \<and> real_of_int crop_oy1 - epsilon \<le> original_y
                            \<and> original_y \<le> real_of_int crop_oy2 + epsilon)
                    then None
                    else
                      (let relative_x_in_crop = original_x - real_of_int crop_ox1;
                           relative_y_in_crop = original_y - real_of_int crop_oy1;
                           prop_x = (if 0 < cropped_width_orig
                                     then relative_x_in_crop / real_of_int cropped_width_orig
                                     else 0);
                           prop_y = (if 0 < cropped_height_orig
                                     then relative_y_in_crop / real_of_int cropped_height_orig
                                     else 0)
                       in Some (prop_x * real_of_int canvas_width,
                                prop_y * real_of_int canvas_height))))
       | _ \<Rightarrow> None))"

text \<open>
  \<open>canvas_x_root\<close> and \<open>canvas_y_root\<close> are the optional pivot; the zoom label is not
  part of the state.
\<close>

definition adjust_zoom ::
  "int \<Rightarrow> int \<Rightarrow> real \<Rightarrow> real option \<Rightarrow> real option \<Rightarrow> app \<Rightarrow> app" where
  "adjust_zoom canvas_width canvas_height factor canvas_x_root canvas_y_root s =
     (if original_pil_image s = None \<or> \<bar>base_scale_factor s\<bar> < 1 / 10 ^ 9 then s
      else
        (let current_effective_scale = base_scale_factor s * zoom_level s in
         if \<bar>current_effective_scale\<bar> < 1 / 10 ^ 9 then s
         else if canvas_width \<le> 1 \<or> canvas_height \<le> 1 then s
         else
           (let canvas_center_x =
                  (case canvas_x_root of None \<Rightarrow> real_of_int canvas_width / 2 | Some x \<Rightarrow> x);
                canvas_center_y =
                  (case canvas_y_root of None \<Rightarrow> real_of_int canvas_height / 2 | Some y \<Rightarrow> y);
                orig_x_at_zoom_center =
                  (canvas_center_x - view_offset_x s) / current_effective_scale;
                orig_y_at_zoom_center =
                  (canvas_center_y - view_offset_y s) / current_effective_scale;
                old_zoom_level = zoom_level s;
                s = s\<lparr>zoom_level :=
                        max MIN_ZOOM_LEVEL (min (zoom_level s * factor) MAX_ZOOM_LEVEL)\<rparr>
            in if \<bar>zoom_level s - old_zoom_level\<bar> < 1 / 10 ^ 5 then s
               else
                 (let s = s\<lparr>effective_scale := base_scale_factor s * zoom_level s\<rparr>;
                      s = s\<lparr>view_offset_x :=
                              canvas_center_x - orig_x_at_zoom_center * effective_scale s\<rparr>;
                      s = s\<lparr>view_offset_y :=
                              canvas_center_y - orig_y_at_zoom_center * effective_scale s\<rparr>
                  in refresh_display canvas_width canvas_height s))))"

definition on_pan_press :: "real \<Rightarrow> real \<Rightarrow> app \<Rightarrow> app" where
  "on_pan_press x_root y_root s =
     (if original_pil_image s = None then s
      else s\<lparr>is_panning := True,
             pan_start_x_view_root := x_root,
             pan_start_y_view_root := y_root,
             pan_initial_offset_x := view_offset_x s,
             pan_initial_offset_y := view_offset_y s\<rparr>)"

definition on_pan_drag :: "int \<Rightarrow> int \<Rightarrow> real \<Rightarrow> real \<Rightarrow> app \<Rightarrow> app" where
  "on_pan_drag canvas_width canvas_height x_root y_root s =
     (case original_pil_image s of
        None \<Rightarrow> s
      | Some (img_width, img_height) \<Rightarrow>
          if \<not> is_panning s then s
          else
            (let current_effective_scale_for_pan = base_scale_factor s * zoom_level s in
             if \<bar>current_effective_scale_for_pan\<bar> < 1 / 10 ^ 9 then s
             else
               (let delta_x = x_root - pan_start_x_view_root s;
                    delta_y = y_root - pan_start_y_view_root s;
                    new_view_offset_x = pan_initial_offset_x s + delta_x;
                    new_view_offset_y = pan_initial_offset_y s + delta_y
                in if canvas_width \<le> 0 \<or> canvas_height \<le> 0 then s
                   else
                     (let full_eff_img_width =
                            real_of_int img_width * current_effective_scale_for_pan;
                          full_eff_img_height =
                            real_of_int img_height * current_effective_scale_for_pan;
                          limit1_x = 0;
                          limit2_x = real_of_int canvas_width - full_eff_img_width;
                          s = s\<lparr>view_offset_x :=
                                  max (min limit1_x limit2_x)
                                      (min (max limit1_x limit2_x) new_view_offset_x)\<rparr>;
                          limit1_y = 0;
                          limit2_y = real_of_int canvas_height - full_eff_img_height;
                          s = s\<lparr>view_offset_y :=
                                  max (min limit1_y limit2_y)
                                      (min (max limit1_y limit2_y) new_view_offset_y)\<rparr>
                      in refresh_display canvas_width canvas_height s))))"

subsection \<open>The annotation store\<close>

definition reset_drawing_state :: "app \<Rightarrow> app" where
  "reset_drawing_state s = s\<lparr>start_canvas := None, current_freehand_points_canvas := []\<rparr>"

text \<open>
  The release handler. \<open>not self.start_x_canvas\<close> holds for \<open>None\<close> and for \<open>0.0\<close>.
  An empty \<open>coords_orig\<close> is \<open>Scalars []\<close>. An exception (\<open>Inl\<close>) leaves the handler
  before any field is assigned.
\<close>

definition on_mouse_release ::
  "int \<Rightarrow> int \<Rightarrow> real \<Rightarrow> real \<Rightarrow> app \<Rightarrow> py_error + app" where
  "on_mouse_release canvas_width canvas_height end_x_canvas end_y_canvas s =
     (case start_canvas s of
        None \<Rightarrow> Inr (reset_drawing_state s)
      | Some (start_x_canvas, start_y_canvas) \<Rightarrow>
          if is_panning s \<or> drawing_tool_var s = ''select'' \<or> start_x_canvas = 0
          then Inr (reset_drawing_state s)
          else
            (let tool = drawing_tool_var s; lbl = current_class_var s in
             if lbl = [] then Inr (reset_drawing_state s)
             else
               (let coords_orig =
                  (if tool = ''rectangle'' then
                     (case view_to_original_coords canvas_width canvas_height s
                             (start_x_canvas, start_y_canvas) of (orig_x1, orig_y1) \<Rightarrow>
                      case view_to_original_coords canvas_width canvas_height s
                             (end_x_canvas, end_y_canvas) of (orig_x2, orig_y2) \<Rightarrow>
                        if 1 \<le> \<bar>orig_x1 - orig_x2\<bar> \<and> 1 \<le> \<bar>orig_y1 - orig_y2\<bar>
                        then Scalars [min orig_x1 orig_x2, min orig_y1 orig_y2,
                                      max orig_x1 orig_x2, max orig_y1 orig_y2]
                        else Scalars [])
                   else if tool = ''line'' then
                     (case view_to_original_coords canvas_width canvas_height s
                             (start_x_canvas, start_y_canvas) of (orig_x1, orig_y1) \<Rightarrow>
                      case view_to_original_coords canvas_width canvas_height s
                             (end_x_canvas, end_y_canvas) of (orig_x2, orig_y2) \<Rightarrow>
                        if 1 \<le> sqrt ((orig_x2 - orig_x1)\<^sup>2 + (orig_y2 - orig_y1)\<^sup>2)
                        then Scalars [orig_x1, orig_y1, orig_x2, orig_y2]
                        else Scalars [])
                   else if tool = ''freehand'' then
                     (if 2 \<le> length (current_freehand_points_canvas s)
                      then Pairs (map (view_to_original_coords canvas_width canvas_height s)
                                      (current_freehand_points_canvas s))
                      else Scalars [])
                   else Scalars [])
                in if len_coords coords_orig = 0 then Inr (reset_drawing_state s)
                   else
                     (case current_image_path s of
                        None \<Rightarrow> Inl TypeError
                      | Some path \<Rightarrow>
                         (let img_name = basename path;
                              new = \<lparr>label = Some lbl, ann_type = Some tool,
                                     coordinates_original = Some coords_orig\<rparr>
                          in case map_of (self_annotations s) img_name of
                               None \<Rightarrow>
                                 (case original_pil_image s of
                                    None \<Rightarrow> Inl AttributeError
                                  | Some (w, h) \<Rightarrow>
                                      Inr (reset_drawing_state
                                        (s\<lparr>self_annotations :=
                                             self_annotations s @
                                               [(img_name,
                                                 \<lparr>annotations = Some [new],
                                                  original_size = Some [w, h]\<rparr>)],
                                            has_unsaved_changes := True\<rparr>)))
                             | Some d \<Rightarrow>
                                 (case annotations d of
                                    None \<Rightarrow> Inl KeyError
                                  | Some anns \<Rightarrow>
                                      Inr (reset_drawing_state
                                        (s\<lparr>self_annotations :=
                                             dict_set img_name
                                               (d\<lparr>annotations := Some (anns @ [new])\<rparr>)
                                               (self_annotations s),
                                            has_unsaved_changes := True\<rparr>))))))))"

text \<open>\<open>confirm\<close> is the answer to the \<open>askyesno\<close> dialog.\<close>

definition clear_current_annotations :: "int \<Rightarrow> int \<Rightarrow> bool \<Rightarrow> app \<Rightarrow> py_error + app" where
  "clear_current_annotations canvas_width canvas_height confirm s =
     (case current_image_path s of
        None \<Rightarrow> Inr s
      | Some path \<Rightarrow>
         (let img_name = basename path in
          if \<not> confirm then Inr s
          else
            (case map_of (self_annotations s) img_name of
               None \<Rightarrow>
                 (case original_pil_image s of
                    None \<Rightarrow> Inl AttributeError
                  | Some (w, h) \<Rightarrow>
                      Inr (refresh_display canvas_width canvas_height
                        (s\<lparr>self_annotations :=
                             self_annotations s @
                               [(img_name, \<lparr>annotations = Some [],
                                            original_size = Some [w, h]\<rparr>)],
                            has_unsaved_changes := True\<rparr>)))
             | Some d \<Rightarrow>
                 Inr (refresh_display canvas_width canvas_height
                   (s\<lparr>self_annotations :=
                        dict_set img_name (d\<lparr>annotations := Some []\<rparr>) (self_annotations s),
                       has_unsaved_changes := True\<rparr>)))))"

definition delete_annotation :: "int \<Rightarrow> int \<Rightarrow> int \<Rightarrow> bool \<Rightarrow> app \<Rightarrow> app" where
  "delete_annotation canvas_width canvas_height index_to_delete confirm s =
     (case current_image_path s of
        None \<Rightarrow> s
      | Some path \<Rightarrow>
         (let img_name = basename path in
          case map_of (self_annotations s) img_name of
            None \<Rightarrow> s
          | Some d \<Rightarrow>
             (case annotations d of
                None \<Rightarrow> s
              | Some annotations_list \<Rightarrow>
                  if 0 \<le> index_to_delete \<and> index_to_delete < int (length annotations_list)
                  then
                    (if confirm then
                       refresh_display canvas_width canvas_height
                         (s\<lparr>self_annotations :=
                              dict_set img_name
                                (d\<lparr>annotations :=
                                     Some (take (nat index_to_delete) annotations_list
                                           @ drop (Suc (nat index_to_delete)) annotations_list)\<rparr>)
                                (self_annotations s),
                             has_unsaved_changes := True,
                             hovered_ann_tag := None\<rparr>)
                     else s)
                  else s)))"

text \<open>
  Saving. \<open>json_files\<close> is the content of the directory \<open>json_data\<close> beside the images:
  the record of every file there, by file name. \<open>makedirs_ok\<close> tells whether
  \<open>os.makedirs\<close> succeeds, and \<open>io_fails name\<close> whether opening for writing, or removing,
  the file \<open>name\<close> raises; a failed operation leaves the file as it was. The counters are
  \<open>saved_count\<close>, \<open>deleted_count\<close> and \<open>error_count\<close>.
\<close>

record save_counts =
  saved_count :: nat
  deleted_count :: nat
  error_count :: nat

definition json_basename_of :: "string \<Rightarrow> string" where
  "json_basename_of img_basename = splitext_root img_basename @ ''.json''"

definition save_one ::
  "(string \<Rightarrow> bool) \<Rightarrow> string \<times> ann_data \<Rightarrow> (string \<rightharpoonup> ann_data) \<times> save_counts
     \<Rightarrow> (string \<rightharpoonup> ann_data) \<times> save_counts" where
  "save_one io_fails item st =
     (case item of (img_basename, ann_data) \<Rightarrow>
      case st of (json_files, n) \<Rightarrow>
       (let save_path = json_basename_of img_basename in
        if annotations ann_data = None \<or> annotations ann_data = Some [] then
          (if json_files save_path \<noteq> None then
             (if io_fails save_path then (json_files, n\<lparr>error_count := Suc (error_count n)\<rparr>)
              else (json_files(save_path := None),
                    n\<lparr>deleted_count := Suc (deleted_count n)\<rparr>))
           else (json_files, n))
        else
          (if io_fails save_path then (json_files, n\<lparr>error_count := Suc (error_count n)\<rparr>)
           else (json_files(save_path \<mapsto> ann_data),
                 n\<lparr>saved_count := Suc (saved_count n)\<rparr>))))"

fun save_loop ::
  "(string \<Rightarrow> bool) \<Rightarrow> (string \<times> ann_data) list \<Rightarrow> (string \<rightharpoonup> ann_data) \<times> save_counts
     \<Rightarrow> (string \<rightharpoonup> ann_data) \<times> save_counts" where
  "save_loop io_fails [] st = st"
| "save_loop io_fails (item # items) st = save_loop io_fails items (save_one io_fails item st)"

text \<open>
  The result is the new state, the new directory content, and the counters when the
  loop was reached (\<open>None\<close> for the three early returns).
\<close>

definition save_annotations ::
  "bool \<Rightarrow> (string \<Rightarrow> bool) \<Rightarrow> app \<Rightarrow> (string \<rightharpoonup> ann_data)
     \<Rightarrow> app \<times> (string \<rightharpoonup> ann_data) \<times> save_counts option" where
  "save_annotations makedirs_ok io_fails s json_files =
     (if image_files s = [] then (s, json_files, None)
      else if self_annotations s = [] then (s, json_files, None)
      else if \<not> makedirs_ok then (s, json_files, None)
      else
        (case save_loop io_fails (self_annotations s)
                (json_files, \<lparr>saved_count = 0, deleted_count = 0, error_count = 0\<rparr>) of
           (json_files', n) \<Rightarrow> (s\<lparr>has_unsaved_changes := False\<rparr>, json_files', Some n)))"

subsection \<open>Concrete states\<close>

text \<open>
  The state after \<open>__init__\<close>, and a session with the 50 by 50 image \<open>photos/a.png\<close>
  loaded, shown at scale 1 and centred in a 100 by 100 canvas.
\<close>

definition initial_app :: app where
  "initial_app =
     \<lparr>current_image_path = None, original_pil_image = None, image_files = [],
      self_annotations = [], has_unsaved_changes = False,
      base_scale_factor = 1, zoom_level = 1, effective_scale = 1,
      view_offset_x = 0, view_offset_y = 0, last_crop_box_original_coords = None,
      pan_start_x_view_root = 0, pan_start_y_view_root = 0,
      pan_initial_offset_x = 0, pan_initial_offset_y = 0, is_panning = False,
      start_canvas = None, current_freehand_points_canvas = [],
      drawing_tool_var = ''rectangle'', current_class_var = ''object'',
      hovered_ann_tag = None\<rparr>"

definition centred_app :: app where
  "centred_app =
     refresh_display 100 100
       (initial_app\<lparr>current_image_path := Some ''photos/a.png'',
                    original_pil_image := Some (50, 50),
                    image_files := [''photos/a.png''],
                    view_offset_x := 25, view_offset_y := 25\<rparr>)"

text \<open>
  The annotations the store holds for an image, and the directory contents in which no
  record file has an empty (or missing) annotation list.
\<close>

definition stored_annotations :: "app \<Rightarrow> string \<Rightarrow> annotation list" where
  "stored_annotations s img =
     (case map_of (self_annotations s) img of
        None \<Rightarrow> []
      | Some d \<Rightarrow> (case annotations d of None \<Rightarrow> [] | Some anns \<Rightarrow> anns))"

definition no_empty_record :: "(string \<rightharpoonup> ann_data) \<Rightarrow> bool" where
  "no_empty_record json_files =
     (\<forall>name r. json_files name = Some r \<longrightarrow>
        annotations r \<noteq> None \<and> annotations r \<noteq> Some [])"

text \<open>A directory where every operation succeeds, and one where every operation fails.\<close>

definition io_ok :: "string \<Rightarrow> bool" where
  "io_ok name = False"

definition io_denied :: "string \<Rightarrow> bool" where
  "io_denied name = True"

text \<open>
  The session after a rectangle was drawn on \<open>a.png\<close> from canvas point (20, 20) to
  (60, 60); the same session after that rectangle was deleted again; and a session over
  a folder holding \<open>a.jpg\<close> and \<open>a.png\<close>, in which a rectangle was drawn on \<open>a.png\<close>
  and the annotations of \<open>a.jpg\<close> were then cleared.
\<close>

definition object_rectangle :: annotation where
  "object_rectangle =
     \<lparr>label = Some ''object'', ann_type = Some ''rectangle'',
      coordinates_original = Some (Scalars [10, 10, 30, 30])\<rparr>"

definition drawn_record :: ann_data where
  "drawn_record = \<lparr>annotations = Some [object_rectangle], original_size = Some [50, 50]\<rparr>"

definition drawn_app :: app where
  "drawn_app =
     centred_app\<lparr>self_annotations := [(''a.png'', drawn_record)],
                 has_unsaved_changes := True\<rparr>"

definition cleared_app :: app where
  "cleared_app =
     centred_app\<lparr>self_annotations := [(''a.png'', drawn_record\<lparr>annotations := Some []\<rparr>)],
                 has_unsaved_changes := True\<rparr>"

definition colliding_app :: app where
  "colliding_app =
     centred_app\<lparr>image_files := [''photos/a.jpg'', ''photos/a.png''],
                 current_image_path := Some ''photos/a.jpg'',
                 self_annotations :=
                   [(''a.png'', drawn_record),
                    (''a.jpg'', \<lparr>annotations = Some [], original_size = Some [50, 50]\<rparr>)],
                 has_unsaved_changes := True\<rparr>"

section \<open>Properties of create\_mask\_from\_annotations\<close>

lemma py_round_of_int: "py_round (of_int n) = n"
  by (simp add: py_round_def)

lemma py_round_10: "py_round 10 = 10"
  using py_round_of_int [of 10] by simp

lemma py_round_50: "py_round 50 = 50"
  using py_round_of_int [of 50] by simp

lemma scenario_two_pairs:
  "create_mask_from_annotations (scenario_record (Pairs [(10, 10), (50, 50)]))
       scenario_class_table t fs
     = (Some (np_zeros 100 100, 100, 100), [Warning_rectangle 0])"
  by (simp add: create_mask_from_annotations_def scenario_record_def
      scenario_class_table_def draw_annotation_def)

lemma scenario_four_scalars:
  "create_mask_from_annotations (scenario_record (Scalars [10, 10, 50, 50]))
       scenario_class_table t fs
     = (Some (draw (Rectangle (10, 10) (50, 50) 1) (np_zeros 100 100), 100, 100), [])"
  by (simp add: create_mask_from_annotations_def scenario_record_def
      scenario_class_table_def draw_annotation_def py_round_10 py_round_50)

text \<open>
  C1, as stated, fails: the rectangle of the scenario is given as two pairs, so its
  coordinate list has length 2, not 4; the rectangle is skipped with a warning and the
  pixel (10, 10) of the returned raster is 0, not 1.
\<close>

theorem scenario_two_pairs_pixel_unset:
  "create_mask_from_annotations (scenario_record (Pairs [(10, 10), (50, 50)]))
       scenario_class_table DEFAULT_LINE_THICKNESS None
     = (Some (np_zeros 100 100, 100, 100), [Warning_rectangle 0])
   \<and> mask_pixel (np_zeros 100 100) 10 10 = Some 0
   \<and> mask_pixel (np_zeros 100 100) 10 10 \<noteq> Some 1"
  by (simp add: scenario_two_pairs mask_pixel_def np_zeros_def)

text \<open>
  C1, amended: with the rectangle given as the four scalars \<open>[10, 10, 50, 50]\<close> the
  raster is 100 by 100, every pixel with \<open>10 \<le> x \<le> 50\<close> and \<open>10 \<le> y \<le> 50\<close> (both
  corners included) is 1 and every other pixel is 0; with the rectangle given as the two
  pairs \<open>[[10, 10], [50, 50]]\<close> it is skipped and every pixel is 0.
\<close>

theorem scenario_rectangle_raster:
  assumes "0 \<le> x" and "x < 100" and "0 \<le> y" and "y < 100"
  shows "fst (create_mask_from_annotations (scenario_record (Scalars [10, 10, 50, 50]))
              scenario_class_table t fs)
           = Some (draw (Rectangle (10, 10) (50, 50) 1) (np_zeros 100 100), 100, 100)
       \<and> mask_pixel (draw (Rectangle (10, 10) (50, 50) 1) (np_zeros 100 100)) x y
           = Some (if 10 \<le> x \<and> x \<le> 50 \<and> 10 \<le> y \<and> y \<le> 50 then 1 else 0)
       \<and> fst (create_mask_from_annotations (scenario_record (Pairs [(10, 10), (50, 50)]))
              scenario_class_table t fs)
           = Some (np_zeros 100 100, 100, 100)
       \<and> mask_pixel (np_zeros 100 100) x y = Some 0"
  using assms
  by (simp add: scenario_two_pairs scenario_four_scalars mask_pixel_def np_zeros_def
      draw_def saturate_uint8_def)

theorem scenario_rectangle_raster_witness:
  "mask_pixel (draw (Rectangle (10, 10) (50, 50) 1) (np_zeros 100 100)) 50 50 = Some 1
   \<and> mask_pixel (draw (Rectangle (10, 10) (50, 50) 1) (np_zeros 100 100)) 51 50 = Some 0"
  using scenario_rectangle_raster [of 50 50] scenario_rectangle_raster [of 51 50]
  by simp


















section \<open>Properties of the visually distinct raster\<close>

lemma scale_factor_value: "scale_factor = 255 / 7"
  by (simp add: scale_factor_def num_classes_def CLASS_MAPPING_def)

lemma visual_mask_value_unfold:
  "visual_mask_value raw =
     (if raw = 7 then py_int (7 * scale_factor)
      else if raw = 6 then py_int (6 * scale_factor)
      else if raw = 5 then py_int (5 * scale_factor)
      else if raw = 4 then py_int (4 * scale_factor)
      else if raw = 3 then py_int (3 * scale_factor)
      else if raw = 2 then py_int (2 * scale_factor)
      else if raw = 1 then py_int (1 * scale_factor)
      else 0)"
  by (simp add: visual_mask_value_def CLASS_MAPPING_def)

text \<open>
  C7, as stated, fails: a pixel of class id 2 becomes \<open>int(2 * 255 / 7) = 72\<close>, while
  \<open>round(2 * 255 / 7) = 73\<close>.
\<close>

theorem visual_mask_value_truncates_2:
  "visual_mask_value 2 = 72 \<and> py_round (2 * 255 / real_of_int num_classes) = 73"
  by (simp add: visual_mask_value_unfold scale_factor_value py_int_def py_round_def
      num_classes_def CLASS_MAPPING_def)

text \<open>
  C7, amended: a pixel of class id 0 stays 0, and a pixel of class id \<open>k\<close> of the class
  table (\<open>1 \<le> k \<le> 7\<close>) becomes \<open>k * 255 / 7\<close> truncated toward zero, where 7 is the
  number of non-background entries of the table; every other raw value is left at 0.
\<close>

theorem visual_mask_value_truncation:
  "num_classes = 7
   \<and> visual_mask_value 0 = 0
   \<and> visual_mask_value k =
       (if 1 \<le> k \<and> k \<le> 7 then \<lfloor>real_of_int k * 255 / real_of_int num_classes\<rfloor> else 0)
   \<and> map visual_mask_value [1, 2, 3, 4, 5, 6, 7] = [36, 72, 109, 145, 182, 218, 255]"
proof -
  have n: "num_classes = 7"
    by (simp add: num_classes_def CLASS_MAPPING_def)
  have v: "visual_mask_value 1 = 36" "visual_mask_value 2 = 72" "visual_mask_value 3 = 109"
    "visual_mask_value 4 = 145" "visual_mask_value 5 = 182" "visual_mask_value 6 = 218"
    "visual_mask_value 7 = 255" "visual_mask_value 0 = 0"
    by (simp_all add: visual_mask_value_unfold scale_factor_value py_int_def)
  have k: "visual_mask_value k =
       (if 1 \<le> k \<and> k \<le> 7 then \<lfloor>real_of_int k * 255 / 7\<rfloor> else 0)"
  proof (cases "1 \<le> k \<and> k \<le> 7")
    case True
    then have "k = 1 \<or> k = 2 \<or> k = 3 \<or> k = 4 \<or> k = 5 \<or> k = 6 \<or> k = 7"
      by arith
    then show ?thesis
      using v by (elim disjE) simp_all
  next
    case False
    then show ?thesis
      by (auto simp add: visual_mask_value_unfold)
  qed
  show ?thesis
    by (simp add: n v k)
qed


section \<open>Properties of convert\_mask\_to\_json\_data\<close>

lemma contourArea_single_point: "contourArea [(x, y)] = 0"
  by (simp add: contourArea_def)

text \<open>
  C9, as stated, fails: the contour of an isolated pixel is a single point; its area is 0,
  below the noise threshold, so it is dropped before the normalisation and nothing is
  emitted for it.
\<close>

theorem single_point_contour_not_emitted:
  "external_contours isolated_pixel_mask 255 = [[(3, 4)]]
   \<and> json_annotations (convert_mask_to_json_data isolated_pixel_mask [(255, ''lines'')]) = []"
  by (simp add: convert_mask_to_json_data_def isolated_pixel_mask_def contourArea_def)

text \<open>
  C9, amended: a contour reduced to a single point has area 0, which is below the noise
  threshold of 4, so it is discarded and no annotation is emitted for it, whatever the
  other contours of its class are; the normalisation step, which comes after the
  filter, turns the squeezed single point \<open>[x, y]\<close> into the one-point sequence
  \<open>[[x, y]]\<close> without a shape error.
\<close>

theorem single_point_contour_discarded:
  "contourArea [(x, y)] < 4
   \<and> contour_annotations lbl (pre @ [(x, y)] # post) = contour_annotations lbl (pre @ post)
   \<and> normalize_coordinates (squeeze_tolist [(x, y)]) = [[x, y]]"
proof -
  have "contour_annotations lbl (pre @ [(x, y)] # post) = contour_annotations lbl (pre @ post)"
    by (induction pre) (simp_all add: contourArea_single_point)
  then show ?thesis
    by (simp add: contourArea_single_point squeeze_tolist_def)
qed


section \<open>Properties of the view transform\<close>

lemma refresh_display_frame:
  "current_image_path (refresh_display cw ch s) = current_image_path s"
  "original_pil_image (refresh_display cw ch s) = original_pil_image s"
  "image_files (refresh_display cw ch s) = image_files s"
  "self_annotations (refresh_display cw ch s) = self_annotations s"
  "has_unsaved_changes (refresh_display cw ch s) = has_unsaved_changes s"
  "base_scale_factor (refresh_display cw ch s) = base_scale_factor s"
  "zoom_level (refresh_display cw ch s) = zoom_level s"
  "effective_scale (refresh_display cw ch s) = effective_scale s"
  "view_offset_x (refresh_display cw ch s) = view_offset_x s"
  "view_offset_y (refresh_display cw ch s) = view_offset_y s"
  "pan_start_x_view_root (refresh_display cw ch s) = pan_start_x_view_root s"
  "pan_start_y_view_root (refresh_display cw ch s) = pan_start_y_view_root s"
  "pan_initial_offset_x (refresh_display cw ch s) = pan_initial_offset_x s"
  "pan_initial_offset_y (refresh_display cw ch s) = pan_initial_offset_y s"
  "is_panning (refresh_display cw ch s) = is_panning s"
  "start_canvas (refresh_display cw ch s) = start_canvas s"
  "current_freehand_points_canvas (refresh_display cw ch s) = current_freehand_points_canvas s"
  "drawing_tool_var (refresh_display cw ch s) = drawing_tool_var s"
  "current_class_var (refresh_display cw ch s) = current_class_var s"
  "hovered_ann_tag (refresh_display cw ch s) = hovered_ann_tag s"
  by (simp_all add: refresh_display_def split: option.splits prod.splits)

lemma py_round_numerals:
  "py_round (- 25) = - 25" "py_round 100 = 100"
  using py_round_of_int [of "- 25"] py_round_of_int [of 100] by simp_all

lemma crop_box_centred: "crop_box 100 100 1 25 25 50 50 = (0, 0, 50, 50)"
  by (simp add: crop_box_def Let_def py_round_numerals cong: let_weak_cong)

lemma centred_app_fields:
  "current_image_path centred_app = Some ''photos/a.png''"
  "original_pil_image centred_app = Some (50, 50)"
  "image_files centred_app = [''photos/a.png'']"
  "self_annotations centred_app = []"
  "has_unsaved_changes centred_app = False"
  "base_scale_factor centred_app = 1"
  "zoom_level centred_app = 1"
  "effective_scale centred_app = 1"
  "view_offset_x centred_app = 25"
  "view_offset_y centred_app = 25"
  "is_panning centred_app = False"
  "start_canvas centred_app = None"
  "drawing_tool_var centred_app = ''rectangle''"
  "current_class_var centred_app = ''object''"
  by (simp_all add: centred_app_def initial_app_def refresh_display_frame)

lemma centred_app_crop_box:
  "last_crop_box_original_coords centred_app = Some (0, 0, 50, 50)"
  by (simp add: centred_app_def initial_app_def refresh_display_def crop_box_centred)

lemma centred_app_refreshed: "refresh_display 100 100 centred_app = centred_app"
  by (simp add: refresh_display_def centred_app_fields crop_box_centred
      centred_app_crop_box [symmetric])

text \<open>
  C4, as stated, fails in its last part: with the scaled image (50 pixels) smaller than
  the canvas (100 pixels) the clamp bounds are 0 and 50, they do not coincide, and a pan
  by 10 moves the offset from the centring value 25 to 35.
\<close>

theorem pan_moves_small_image:
  "real_of_int 50 * (base_scale_factor centred_app * zoom_level centred_app) < real_of_int 100
   \<and> view_offset_x centred_app = 25
   \<and> view_offset_x (on_pan_drag 100 100 10 0 (on_pan_press 0 0 centred_app)) = 35
   \<and> min 0 (real_of_int 100
             - real_of_int 50 * (base_scale_factor centred_app * zoom_level centred_app)) = 0
   \<and> max 0 (real_of_int 100
             - real_of_int 50 * (base_scale_factor centred_app * zoom_level centred_app)) = 50"
  by (simp add: on_pan_drag_def on_pan_press_def centred_app_fields refresh_display_frame
      Let_def)

text \<open>
  C4, amended: for a view state with a loaded image, a positive canvas size and a scale
  \<open>base_scale_factor * zoom_level\<close> of at least \<open>1e-9\<close>, and for every pan delta, a pan
  (press at any point, drag by the delta) sets each axis of the offset to the offset at
  the press plus the delta, clamped into
  \<open>[min 0 (canvas - scaled extent), max 0 (canvas - scaled extent)]\<close>; the result lies
  within these bounds. When the scaled image is smaller than the canvas along an axis the
  bounds are 0 and \<open>canvas - scaled extent\<close>, which differ, and the offset moves freely
  between them.
\<close>

theorem pan_clamps_offset:
  assumes "original_pil_image s = Some (img_w, img_h)"
    and "0 < cw" and "0 < ch"
    and "1 / 10 ^ 9 \<le> base_scale_factor s * zoom_level s"
    and "s' = on_pan_drag cw ch (x0 + dx) (y0 + dy) (on_pan_press x0 y0 s)"
    and "lx = real_of_int cw - real_of_int img_w * (base_scale_factor s * zoom_level s)"
    and "ly = real_of_int ch - real_of_int img_h * (base_scale_factor s * zoom_level s)"
  shows "view_offset_x s' = max (min 0 lx) (min (max 0 lx) (view_offset_x s + dx))
       \<and> view_offset_y s' = max (min 0 ly) (min (max 0 ly) (view_offset_y s + dy))
       \<and> min 0 lx \<le> view_offset_x s' \<and> view_offset_x s' \<le> max 0 lx
       \<and> min 0 ly \<le> view_offset_y s' \<and> view_offset_y s' \<le> max 0 ly
       \<and> (0 < lx \<longrightarrow> min 0 lx = 0 \<and> max 0 lx = lx \<and> min 0 lx \<noteq> max 0 lx)
       \<and> (0 < ly \<longrightarrow> min 0 ly = 0 \<and> max 0 ly = ly \<and> min 0 ly \<noteq> max 0 ly)"
proof -
  have x: "view_offset_x s' = max (min 0 lx) (min (max 0 lx) (view_offset_x s + dx))"
    using assms
    by (simp add: on_pan_drag_def on_pan_press_def refresh_display_frame Let_def)
  have y: "view_offset_y s' = max (min 0 ly) (min (max 0 ly) (view_offset_y s + dy))"
    using assms
    by (simp add: on_pan_drag_def on_pan_press_def refresh_display_frame Let_def)
  show ?thesis
    unfolding x y by auto
qed

theorem pan_clamps_offset_witness:
  "original_pil_image centred_app = Some (50, 50)
   \<and> (1 / 10 ^ 9 :: real) \<le> base_scale_factor centred_app * zoom_level centred_app
   \<and> view_offset_x (on_pan_drag 100 100 (0 + 1000) (0 + (- 1000))
                       (on_pan_press 0 0 centred_app)) = 50
   \<and> view_offset_y (on_pan_drag 100 100 (0 + 1000) (0 + (- 1000))
                       (on_pan_press 0 0 centred_app)) = 0"
proof -
  have img: "original_pil_image centred_app = Some (50, 50)"
    by (simp add: centred_app_fields)
  have sc: "(1 / 10 ^ 9 :: real) \<le> base_scale_factor centred_app * zoom_level centred_app"
    by (simp add: centred_app_fields)
  have lim: "(50 :: real) = real_of_int 100
               - real_of_int 50 * (base_scale_factor centred_app * zoom_level centred_app)"
    by (simp add: centred_app_fields)
  have "view_offset_x (on_pan_drag 100 100 (0 + 1000) (0 + (- 1000))
                       (on_pan_press 0 0 centred_app)) =
          max (min 0 50) (min (max 0 50) (view_offset_x centred_app + 1000))
      \<and> view_offset_y (on_pan_drag 100 100 (0 + 1000) (0 + (- 1000))
                       (on_pan_press 0 0 centred_app)) =
          max (min 0 50) (min (max 0 50) (view_offset_y centred_app + (- 1000)))"
    using pan_clamps_offset [where s = centred_app and img_w = 50 and img_h = 50
        and cw = 100 and ch = 100 and ?x0.0 = 0 and ?y0.0 = 0 and dx = 1000
        and dy = "- 1000" and lx = 50 and ly = 50, OF img _ _ sc refl lim lim]
    by simp
  then show ?thesis
    using img sc by (simp add: centred_app_fields)
qed

text \<open>
  The crop box is written by \<open>refresh_display\<close> alone. A state is a fixed point of
  \<open>refresh_display\<close> exactly when its crop box is the one \<open>refresh_display\<close> computes
  for it, and the view operations keep it so. With an image of positive size the box has
  positive extents and lies inside the image.
\<close>

lemma refresh_display_fixed_iff:
  "refresh_display cw ch s = s \<longleftrightarrow>
     last_crop_box_original_coords s = last_crop_box_original_coords (refresh_display cw ch s)"
proof
  assume "refresh_display cw ch s = s"
  then show "last_crop_box_original_coords s = last_crop_box_original_coords (refresh_display cw ch s)"
    by simp
next
  assume a: "last_crop_box_original_coords s = last_crop_box_original_coords (refresh_display cw ch s)"
  have "refresh_display cw ch s =
          s\<lparr>last_crop_box_original_coords := last_crop_box_original_coords (refresh_display cw ch s)\<rparr>"
    by (simp add: refresh_display_def split: option.splits prod.splits)
  also have "\<dots> = s"
    unfolding a [symmetric] by simp
  finally show "refresh_display cw ch s = s" .
qed

lemma refresh_display_idem:
  "refresh_display cw ch (refresh_display cw ch s) = refresh_display cw ch s"
  by (simp add: refresh_display_def split: option.splits prod.splits)

lemma on_pan_press_keeps_crop_box:
  assumes "refresh_display cw ch s = s"
  shows "refresh_display cw ch (on_pan_press x y s) = on_pan_press x y s"
proof -
  have "last_crop_box_original_coords s = last_crop_box_original_coords (refresh_display cw ch s)"
    using assms by simp
  then show ?thesis
    unfolding refresh_display_fixed_iff [of cw ch "on_pan_press x y s"]
    by (simp add: refresh_display_def on_pan_press_def split: option.splits prod.splits)
qed

lemma on_pan_drag_keeps_crop_box:
  assumes "refresh_display cw ch s = s"
  shows "refresh_display cw ch (on_pan_drag cw ch x y s) = on_pan_drag cw ch x y s"
  using assms
  by (simp add: on_pan_drag_def refresh_display_idem Let_def split: option.splits prod.splits)

lemma adjust_zoom_keeps_crop_box:
  assumes "refresh_display cw ch s = s"
  shows "refresh_display cw ch (adjust_zoom cw ch f px py s) = adjust_zoom cw ch f px py s"
proof -
  have c: "last_crop_box_original_coords s = last_crop_box_original_coords (refresh_display cw ch s)"
    using assms by simp
  have z: "refresh_display cw ch (s\<lparr>zoom_level := z\<rparr>) = s\<lparr>zoom_level := z\<rparr>" for z
    unfolding refresh_display_fixed_iff [of cw ch "s\<lparr>zoom_level := z\<rparr>"]
    using c by (simp add: refresh_display_def split: option.splits prod.splits)
  show ?thesis
    using assms z
    by (simp add: adjust_zoom_def refresh_display_idem Let_def)
qed

lemma crop_box_positive:
  assumes "0 < img_w" and "0 < img_h"
    and "crop_box cw ch sc ox oy img_w img_h = (x1, y1, x2, y2)"
  shows "0 \<le> x1 \<and> x1 < x2 \<and> x2 \<le> img_w \<and> 0 \<le> y1 \<and> y1 < y2 \<and> y2 \<le> img_h"
  using assms
  by (auto simp add: crop_box_def Let_def min_def max_def split: if_splits)

lemma refreshed_crop_box_state:
  assumes "refresh_display cw0 ch0 s = s"
    and "last_crop_box_original_coords s = Some box"
  shows "original_pil_image s \<noteq> None \<and> \<not> \<bar>effective_scale s\<bar> < 1 / 10 ^ 9"
proof -
  have "last_crop_box_original_coords (refresh_display cw0 ch0 s) = Some box"
    using assms by simp
  then show ?thesis
    by (auto simp add: refresh_display_def split: option.splits prod.splits if_splits)
qed

lemma view_roundtrip_exact:
  assumes "original_pil_image s \<noteq> None" and "\<not> \<bar>effective_scale s\<bar> < 1 / 10 ^ 9"
    and "last_crop_box_original_coords s = Some (x1, y1, x2, y2)"
    and "x1 < x2" and "y1 < y2" and "0 < cw" and "0 < ch"
    and "0 \<le> px" and "px \<le> real_of_int cw" and "0 \<le> py" and "py \<le> real_of_int ch"
  shows "original_to_view_coords cw ch s (view_to_original_coords cw ch s (px, py))
           = Some (px, py)"
proof -
  obtain img where img: "original_pil_image s = Some img"
    using assms(1) by blast
  define w where "w = real_of_int (x2 - x1)"
  define h where "h = real_of_int (y2 - y1)"
  have pos: "0 < w" "0 < h" "0 < real_of_int cw" "0 < real_of_int ch"
    using assms by (simp_all add: w_def h_def)
  have fx: "0 \<le> px / real_of_int cw" "px / real_of_int cw \<le> 1"
    using assms pos by simp_all
  have fy: "0 \<le> py / real_of_int ch" "py / real_of_int ch \<le> 1"
    using assms pos by simp_all
  have v: "view_to_original_coords cw ch s (px, py) =
             (real_of_int x1 + px / real_of_int cw * w,
              real_of_int y1 + py / real_of_int ch * h)"
    using assms img by (simp add: view_to_original_coords_def w_def h_def)
  have bx: "0 \<le> px / real_of_int cw * w" "px / real_of_int cw * w \<le> w"
    using fx pos mult_nonneg_nonneg [of "px / real_of_int cw" w]
      mult_right_mono [of "px / real_of_int cw" 1 w]
    by simp_all
  have bnd_y: "0 \<le> py / real_of_int ch * h" "py / real_of_int ch * h \<le> h"
    using fy pos mult_nonneg_nonneg [of "py / real_of_int ch" h]
      mult_right_mono [of "py / real_of_int ch" 1 h]
    by simp_all
  have x2: "real_of_int x2 = real_of_int x1 + w" and y2: "real_of_int y2 = real_of_int y1 + h"
    by (simp_all add: w_def h_def)
  have range:
    "real_of_int x1 - 1 / 10 ^ 9 \<le> real_of_int x1 + px / real_of_int cw * w"
    "real_of_int x1 + px / real_of_int cw * w \<le> real_of_int x2 + 1 / 10 ^ 9"
    "real_of_int y1 - 1 / 10 ^ 9 \<le> real_of_int y1 + py / real_of_int ch * h"
    "real_of_int y1 + py / real_of_int ch * h \<le> real_of_int y2 + 1 / 10 ^ 9"
    using bx bnd_y by (simp_all add: x2 y2)
  have undo: "px / real_of_int cw * w / w * real_of_int cw = px"
    "py / real_of_int ch * h / h * real_of_int ch = py"
    using pos by simp_all
  have ext: "\<not> x2 - x1 \<le> 0" "\<not> y2 - y1 \<le> 0" "0 < x2 - x1" "0 < y2 - y1"
    using assms by simp_all
  show ?thesis
    unfolding v
    using assms(2,3,6,7) img ext range undo
    by (simp add: original_to_view_coords_def w_def h_def)
qed

text \<open>
  C5: in a view state whose crop box is the one \<open>refresh_display\<close> has published, with
  positive extents, and for a canvas of positive size, every point of the canvas is
  mapped by \<open>view_to_original_coords\<close> and back by \<open>original_to_view_coords\<close> to a
  defined point within one pixel of it on each axis.
\<close>

theorem view_roundtrip:
  assumes "refresh_display cw0 ch0 s = s"
    and "last_crop_box_original_coords s = Some (x1, y1, x2, y2)"
    and "x1 < x2" and "y1 < y2" and "0 < cw" and "0 < ch"
    and "0 \<le> px" and "px \<le> real_of_int cw" and "0 \<le> py" and "py \<le> real_of_int ch"
  shows "\<exists>vx vy. original_to_view_coords cw ch s (view_to_original_coords cw ch s (px, py))
                   = Some (vx, vy)
               \<and> \<bar>vx - px\<bar> \<le> 1 \<and> \<bar>vy - py\<bar> \<le> 1"
proof -
  have st: "original_pil_image s \<noteq> None \<and> \<not> \<bar>effective_scale s\<bar> < 1 / 10 ^ 9"
    using assms(1,2) by (rule refreshed_crop_box_state)
  have "original_to_view_coords cw ch s (view_to_original_coords cw ch s (px, py))
               = Some (px, py)"
    using st assms(2-10)
    by (intro view_roundtrip_exact [where ?x1.0 = x1 and ?y1.0 = y1 and ?x2.0 = x2
          and ?y2.0 = y2]) blast+
  then show ?thesis
    by simp
qed

theorem view_roundtrip_witness:
  "refresh_display 100 100 centred_app = centred_app
   \<and> last_crop_box_original_coords centred_app = Some (0, 0, 50, 50)
   \<and> (\<exists>vx vy. original_to_view_coords 100 100 centred_app
                  (view_to_original_coords 100 100 centred_app (30, 40)) = Some (vx, vy)
              \<and> \<bar>vx - 30\<bar> \<le> 1 \<and> \<bar>vy - 40\<bar> \<le> 1)"
  using view_roundtrip [where s = centred_app and ?cw0.0 = 100 and ?ch0.0 = 100
      and ?x1.0 = 0 and ?y1.0 = 0 and ?x2.0 = 50 and ?y2.0 = 50 and cw = 100 and ch = 100
      and px = 30 and py = 40]
  by (simp add: centred_app_refreshed centred_app_crop_box)

text \<open>
  C6 on the code: with \<open>zoom_level = 1\<close> and factor \<open>1.000001\<close> the clamped change is
  \<open>1e-6\<close>, below the epsilon \<open>1e-5\<close>; \<open>adjust_zoom\<close> returns early, but it has already
  stored the new \<open>zoom_level\<close>, while \<open>effective_scale\<close> and the offsets keep their
  values.
\<close>

theorem adjust_zoom_small_change_stores_zoom_level:
  "\<bar>max MIN_ZOOM_LEVEL (min (zoom_level centred_app * (1000001 / 1000000)) MAX_ZOOM_LEVEL)
      - zoom_level centred_app\<bar> < 1 / 10 ^ 5
   \<and> zoom_level centred_app = 1
   \<and> zoom_level (adjust_zoom 100 100 (1000001 / 1000000) None None centred_app)
       = 1000001 / 1000000
   \<and> effective_scale (adjust_zoom 100 100 (1000001 / 1000000) None None centred_app) = 1
   \<and> view_offset_x (adjust_zoom 100 100 (1000001 / 1000000) None None centred_app) = 25
   \<and> view_offset_y (adjust_zoom 100 100 (1000001 / 1000000) None None centred_app) = 25"
  by (simp add: adjust_zoom_def centred_app_fields Let_def MIN_ZOOM_LEVEL_def
      MAX_ZOOM_LEVEL_def)

section \<open>Properties of the annotation store\<close>

lemma map_of_dict_set: "map_of (dict_set k v kvs) = (map_of kvs)(k \<mapsto> v)"
  by (induction kvs) auto

lemma map_of_append_new:
  "map_of kvs k = None \<Longrightarrow> map_of (kvs @ [(k, v)]) = (map_of kvs)(k \<mapsto> v)"
  by (auto simp add: fun_eq_iff map_add_def split: option.splits)

lemma centred_app_literal:
  "centred_app =
     \<lparr>current_image_path = Some ''photos/a.png'', original_pil_image = Some (50, 50),
      image_files = [''photos/a.png''],
      self_annotations = [], has_unsaved_changes = False,
      base_scale_factor = 1, zoom_level = 1, effective_scale = 1,
      view_offset_x = 25, view_offset_y = 25,
      last_crop_box_original_coords = Some (0, 0, 50, 50),
      pan_start_x_view_root = 0, pan_start_y_view_root = 0,
      pan_initial_offset_x = 0, pan_initial_offset_y = 0, is_panning = False,
      start_canvas = None, current_freehand_points_canvas = [],
      drawing_tool_var = ''rectangle'', current_class_var = ''object'',
      hovered_ann_tag = None\<rparr>"
  by (simp add: centred_app_def initial_app_def refresh_display_def crop_box_centred)

lemma json_names:
  "json_basename_of ''a.png'' = ''a.json''" "json_basename_of ''a.jpg'' = ''a.json''"
  "basename ''photos/a.png'' = ''a.png''" "basename ''photos/a.jpg'' = ''a.jpg''"
  by (simp_all add: json_basename_of_def splitext_root_def basename_def)

lemma view_to_original_centred:
  "view_to_original_coords 100 100 (centred_app\<lparr>start_canvas := Some (20, 20)\<rparr>) (20, 20) = (10, 10)"
  "view_to_original_coords 100 100 (centred_app\<lparr>start_canvas := Some (20, 20)\<rparr>) (60, 60) = (30, 30)"
  by (simp_all add: view_to_original_coords_def centred_app_fields centred_app_crop_box)

lemma release_draws_rectangle:
  "on_mouse_release 100 100 60 60 (centred_app\<lparr>start_canvas := Some (20, 20)\<rparr>) = Inr drawn_app"
proof -
  have "on_mouse_release 100 100 60 60 (centred_app\<lparr>start_canvas := Some (20, 20)\<rparr>) =
          Inr (reset_drawing_state
                (centred_app\<lparr>start_canvas := Some (20, 20),
                   self_annotations := [(''a.png'', drawn_record)],
                   has_unsaved_changes := True\<rparr>))"
    by (simp add: on_mouse_release_def view_to_original_centred centred_app_fields
        drawn_record_def object_rectangle_def json_names Let_def cong: let_weak_cong)
  then show ?thesis
    by (simp add: reset_drawing_state_def drawn_app_def centred_app_literal)
qed

lemma delete_last:
  "delete_annotation 100 100 0 True drawn_app = cleared_app"
  by (simp add: delete_annotation_def drawn_app_def cleared_app_def drawn_record_def
      json_names centred_app_literal refresh_display_def crop_box_centred Let_def)

text \<open>
  The dirty flag: each of the three mutating operations sets it whenever it changes the
  store, and a save that reaches its loop resets it.
\<close>

lemma on_mouse_release_marks_unsaved:
  assumes "on_mouse_release cw ch ex ey s = Inr s'"
    and "self_annotations s' \<noteq> self_annotations s"
  shows "has_unsaved_changes s'"
  using assms
  by (auto simp add: on_mouse_release_def reset_drawing_state_def Let_def
      split: option.splits prod.splits if_splits)

lemma clear_current_annotations_marks_unsaved:
  assumes "clear_current_annotations cw ch True s = Inr s'"
    and "current_image_path s = Some path"
  shows "has_unsaved_changes s' \<and> stored_annotations s' (basename path) = []"
  using assms
  by (auto simp add: clear_current_annotations_def refresh_display_frame Let_def
      stored_annotations_def map_of_dict_set map_of_append_new
      simp del: map_of_append split: option.splits prod.splits)

lemma delete_annotation_marks_unsaved:
  assumes "self_annotations (delete_annotation cw ch i confirm s) \<noteq> self_annotations s"
  shows "has_unsaved_changes (delete_annotation cw ch i confirm s)"
  using assms
  by (auto simp add: delete_annotation_def refresh_display_frame Let_def
      split: option.splits if_splits)

lemma save_reaching_loop_clears_flag:
  assumes "save_annotations makedirs_ok io_fails s json_files = (s', json_files', Some n)"
  shows "\<not> has_unsaved_changes s'"
  using assms
  by (auto simp add: save_annotations_def split: if_splits prod.splits)

text \<open>
  C3 on the code: in a session with unsaved work, a save in which the only write fails
  (\<open>error_count = 1\<close>) still sets \<open>has_unsaved_changes\<close> to \<open>False\<close>: the assignment
  after the loop does not look at \<open>error_count\<close>.
\<close>

theorem save_with_error_clears_flag:
  "has_unsaved_changes drawn_app = True
   \<and> save_annotations True io_denied drawn_app Map.empty
       = (drawn_app\<lparr>has_unsaved_changes := False\<rparr>, Map.empty,
          Some \<lparr>saved_count = 0, deleted_count = 0, error_count = 1\<rparr>)"
  by (simp add: save_annotations_def save_one_def drawn_app_def drawn_record_def
      centred_app_fields io_denied_def)

text \<open>
  C2, as stated, fails: \<open>a.png\<close> and \<open>a.jpg\<close> share the record file \<open>a.json\<close>. The
  annotation list of \<open>a.png\<close> is not empty and its record is written, but the empty list
  of \<open>a.jpg\<close>, which comes later in the store, removes the file again: after the save,
  which reports no error, there is no record file for \<open>a.png\<close>.
\<close>

theorem colliding_names_lose_record:
  "map_of (self_annotations colliding_app) ''a.png'' = Some drawn_record
   \<and> annotations drawn_record = Some [object_rectangle]
   \<and> fst (snd (save_annotations True io_ok colliding_app Map.empty))
        (json_basename_of ''a.png'') = None
   \<and> snd (snd (save_annotations True io_ok colliding_app Map.empty))
        = Some \<lparr>saved_count = 1, deleted_count = 1, error_count = 0\<rparr>"
  by (simp add: save_annotations_def save_one_def colliding_app_def drawn_record_def
      centred_app_fields io_ok_def json_names)


lemma save_loop_append:
  "save_loop io_fails (xs @ ys) st = save_loop io_fails ys (save_loop io_fails xs st)"
  by (induction xs arbitrary: st) simp_all

lemma save_one_other_name:
  "json_basename_of (fst item) \<noteq> p \<Longrightarrow> fst (save_one io_fails item (files, n)) p = files p"
  by (cases item) (simp add: save_one_def Let_def)

lemma save_loop_other_names:
  "\<forall>item \<in> set items. json_basename_of (fst item) \<noteq> p \<Longrightarrow>
     fst (save_loop io_fails items (files, n)) p = files p"
proof (induction items arbitrary: files n)
  case Nil
  show ?case by simp
next
  case (Cons item items)
  obtain files1 n1 where s1: "save_one io_fails item (files, n) = (files1, n1)"
    by (cases "save_one io_fails item (files, n)")
  have "files1 p = files p"
    using save_one_other_name [of item p io_fails files n] Cons.prems s1 by simp
  then show ?case
    using Cons.IH [of files1 n1] Cons.prems s1 by simp
qed

lemma save_one_this_name:
  assumes "\<not> io_fails (json_basename_of img)"
  shows "fst (save_one io_fails (img, d) (files, n)) (json_basename_of img) =
           (if annotations d = None \<or> annotations d = Some [] then None else Some d)"
  using assms by (simp add: save_one_def Let_def)

lemma save_one_no_empty_record:
  "no_empty_record files \<Longrightarrow> no_empty_record (fst (save_one io_fails item (files, n)))"
  by (cases item) (simp add: save_one_def Let_def no_empty_record_def)

lemma save_loop_no_empty_record:
  "no_empty_record files \<Longrightarrow> no_empty_record (fst (save_loop io_fails items (files, n)))"
proof (induction items arbitrary: files n)
  case Nil
  then show ?case by simp
next
  case (Cons item items)
  obtain files1 n1 where s1: "save_one io_fails item (files, n) = (files1, n1)"
    by (cases "save_one io_fails item (files, n)")
  have "no_empty_record files1"
    using save_one_no_empty_record [OF Cons.prems, of io_fails item n] s1 by simp
  then show ?case
    using Cons.IH [of files1 n1] s1 by simp
qed

lemma save_loop_this_name:
  assumes "\<forall>(img', d') \<in> set post. json_basename_of img' \<noteq> json_basename_of img"
    and "\<not> io_fails (json_basename_of img)"
  shows "fst (save_loop io_fails (pre @ (img, d) # post) (files, n)) (json_basename_of img) =
           (if annotations d = None \<or> annotations d = Some [] then None else Some d)"
proof -
  have post: "\<forall>item \<in> set post. json_basename_of (fst item) \<noteq> json_basename_of img"
    using assms(1) by auto
  obtain files1 n1 where s1: "save_loop io_fails pre (files, n) = (files1, n1)"
    by (cases "save_loop io_fails pre (files, n)")
  obtain files2 n2 where s2: "save_one io_fails (img, d) (files1, n1) = (files2, n2)"
    by (cases "save_one io_fails (img, d) (files1, n1)")
  have "fst (save_loop io_fails (pre @ (img, d) # post) (files, n)) (json_basename_of img) =
          fst (save_loop io_fails post (files2, n2)) (json_basename_of img)"
    by (simp add: save_loop_append s1 s2)
  also have "\<dots> = files2 (json_basename_of img)"
    by (rule save_loop_other_names [OF post])
  also have "\<dots> = (if annotations d = None \<or> annotations d = Some [] then None else Some d)"
    using save_one_this_name [where io_fails = io_fails and img = img and d = d
        and files = files1 and n = n1, OF assms(2)] s2 by simp
  finally show ?thesis .
qed

lemma save_annotations_no_empty_record:
  assumes "no_empty_record json_files"
  shows "no_empty_record (fst (snd (save_annotations makedirs_ok io_fails s json_files)))"
proof -
  have "no_empty_record
          (fst (save_loop io_fails (self_annotations s)
                  (json_files, \<lparr>saved_count = 0, deleted_count = 0, error_count = 0\<rparr>)))"
    by (rule save_loop_no_empty_record [OF assms])
  then show ?thesis
    using assms by (auto simp add: save_annotations_def split: prod.splits)
qed

text \<open>
  C2, amended. For every store, every directory content and whatever fails, a save
  never leaves a record file with an empty annotation list if there was none before.
  When the save reaches its loop (there are image files and the directory can be
  created), then for every image of the store such that no image later in the store
  shares its record file name, and such that opening its record file for writing, or
  removing it, does not raise: after the save the record file holds the image's record
  if its annotation list is not empty, and does not exist if the list is empty or
  missing. So after the last annotation of such an image is deleted and the store is
  saved, its previously written record file is gone.
\<close>

theorem save_writes_or_deletes:
  "(no_empty_record json_files \<longrightarrow>
      no_empty_record (fst (snd (save_annotations makedirs_ok io_fails s json_files))))
   \<and> (image_files s \<noteq> [] \<and> makedirs_ok
        \<and> self_annotations s = pre @ (img, d) # post
        \<and> (\<forall>(img', d') \<in> set post. json_basename_of img' \<noteq> json_basename_of img)
        \<and> \<not> io_fails (json_basename_of img) \<longrightarrow>
      fst (snd (save_annotations makedirs_ok io_fails s json_files)) (json_basename_of img)
        = (if annotations d = None \<or> annotations d = Some [] then None else Some d))"
proof (intro conjI impI)
  assume "no_empty_record json_files"
  then show "no_empty_record (fst (snd (save_annotations makedirs_ok io_fails s json_files)))"
    by (rule save_annotations_no_empty_record)
next
  assume a: "image_files s \<noteq> [] \<and> makedirs_ok
        \<and> self_annotations s = pre @ (img, d) # post
        \<and> (\<forall>(img', d') \<in> set post. json_basename_of img' \<noteq> json_basename_of img)
        \<and> \<not> io_fails (json_basename_of img)"
  let ?n0 = "\<lparr>saved_count = 0, deleted_count = 0, error_count = 0\<rparr>"
  have "fst (snd (save_annotations makedirs_ok io_fails s json_files)) =
          fst (save_loop io_fails (pre @ (img, d) # post) (json_files, ?n0))"
    using a by (simp add: save_annotations_def split: prod.splits)
  then show "fst (snd (save_annotations makedirs_ok io_fails s json_files))
                 (json_basename_of img)
        = (if annotations d = None \<or> annotations d = Some [] then None else Some d)"
    using a save_loop_this_name [where io_fails = io_fails and img = img and d = d
        and pre = pre and post = post and files = json_files and n = ?n0]
    by simp
qed

theorem save_writes_or_deletes_witness:
  "no_empty_record [''a.json'' \<mapsto> drawn_record]
   \<and> no_empty_record
        (fst (snd (save_annotations True io_denied colliding_app
                     [''a.json'' \<mapsto> drawn_record])))
   \<and> fst (snd (save_annotations True io_ok drawn_app Map.empty))
        (json_basename_of ''a.png'') = Some drawn_record
   \<and> stored_annotations cleared_app ''a.png'' = []
   \<and> fst (snd (save_annotations True io_ok cleared_app [''a.json'' \<mapsto> drawn_record]))
        (json_basename_of ''a.png'') = None
   \<and> fst (snd (save_annotations True io_ok colliding_app [''a.json'' \<mapsto> drawn_record]))
        (json_basename_of ''a.jpg'') = None"
proof -
  have before: "no_empty_record [''a.json'' \<mapsto> drawn_record]"
    by (simp add: no_empty_record_def drawn_record_def)
  have kept: "no_empty_record
        (fst (snd (save_annotations True io_denied colliding_app
                     [''a.json'' \<mapsto> drawn_record])))"
    using save_writes_or_deletes [where json_files = "[''a.json'' \<mapsto> drawn_record]"
        and makedirs_ok = True and io_fails = io_denied and s = colliding_app,
        THEN conjunct1] before
    by simp
  have drawn: "image_files drawn_app \<noteq> [] \<and> True
        \<and> self_annotations drawn_app = [] @ (''a.png'', drawn_record) # []
        \<and> (\<forall>(img', d') \<in> set []. json_basename_of img' \<noteq> json_basename_of ''a.png'')
        \<and> \<not> io_ok (json_basename_of ''a.png'')"
    by (simp add: drawn_app_def centred_app_fields io_ok_def)
  have written: "fst (snd (save_annotations True io_ok drawn_app Map.empty))
        (json_basename_of ''a.png'') = Some drawn_record"
    using save_writes_or_deletes [where json_files = Map.empty and makedirs_ok = True
        and io_fails = io_ok and s = drawn_app and pre = "[]" and img = "''a.png''"
        and d = drawn_record and post = "[]", THEN conjunct2, rule_format, OF drawn]
    by (simp add: drawn_record_def)
  have cleared: "image_files cleared_app \<noteq> [] \<and> True
        \<and> self_annotations cleared_app =
            [] @ (''a.png'', drawn_record\<lparr>annotations := Some []\<rparr>) # []
        \<and> (\<forall>(img', d') \<in> set []. json_basename_of img' \<noteq> json_basename_of ''a.png'')
        \<and> \<not> io_ok (json_basename_of ''a.png'')"
    by (simp add: cleared_app_def centred_app_fields io_ok_def)
  have removed: "fst (snd (save_annotations True io_ok cleared_app
        [''a.json'' \<mapsto> drawn_record])) (json_basename_of ''a.png'') = None"
    using save_writes_or_deletes [where json_files = "[''a.json'' \<mapsto> drawn_record]"
        and makedirs_ok = True and io_fails = io_ok and s = cleared_app and pre = "[]"
        and img = "''a.png''" and d = "drawn_record\<lparr>annotations := Some []\<rparr>"
        and post = "[]", THEN conjunct2, rule_format, OF cleared]
    by simp
  have colliding: "image_files colliding_app \<noteq> [] \<and> True
        \<and> self_annotations colliding_app =
            [(''a.png'', drawn_record)]
            @ (''a.jpg'', \<lparr>annotations = Some [], original_size = Some [50, 50]\<rparr>) # []
        \<and> (\<forall>(img', d') \<in> set []. json_basename_of img' \<noteq> json_basename_of ''a.jpg'')
        \<and> \<not> io_ok (json_basename_of ''a.jpg'')"
    by (simp add: colliding_app_def centred_app_fields io_ok_def)
  have later: "fst (snd (save_annotations True io_ok colliding_app
        [''a.json'' \<mapsto> drawn_record])) (json_basename_of ''a.jpg'') = None"
    using save_writes_or_deletes [where json_files = "[''a.json'' \<mapsto> drawn_record]"
        and makedirs_ok = True and io_fails = io_ok and s = colliding_app
        and pre = "[(''a.png'', drawn_record)]" and img = "''a.jpg''"
        and d = "\<lparr>annotations = Some [], original_size = Some [50, 50]\<rparr>"
        and post = "[]", THEN conjunct2, rule_format, OF colliding]
    by simp
  have stored: "stored_annotations cleared_app ''a.png'' = []"
    by (simp add: stored_annotations_def cleared_app_def drawn_record_def)
  show ?thesis
    using before kept written stored removed later by simp
qed

lemma on_mouse_release_rectangle:
  assumes "drawing_tool_var s = ''rectangle''"
    and "start_canvas s = Some (sx, sy)"
    and "view_to_original_coords cw ch s (sx, sy) = (ox1, oy1)"
    and "view_to_original_coords cw ch s (ex, ey) = (ox2, oy2)"
  shows "on_mouse_release cw ch ex ey s =
     (if is_panning s \<or> sx = 0 \<or> current_class_var s = []
         \<or> \<not> (1 \<le> \<bar>ox1 - ox2\<bar> \<and> 1 \<le> \<bar>oy1 - oy2\<bar>)
      then Inr (reset_drawing_state s)
      else
        (case current_image_path s of
           None \<Rightarrow> Inl TypeError
         | Some path \<Rightarrow>
            (case map_of (self_annotations s) (basename path) of
               None \<Rightarrow>
                 (case original_pil_image s of
                    None \<Rightarrow> Inl AttributeError
                  | Some (w, h) \<Rightarrow>
                      Inr (reset_drawing_state
                        (s\<lparr>self_annotations :=
                             self_annotations s @
                               [(basename path,
                                 \<lparr>annotations = Some
                                    [\<lparr>label = Some (current_class_var s),
                                      ann_type = Some ''rectangle'',
                                      coordinates_original =
                                        Some (Scalars [min ox1 ox2, min oy1 oy2,
                                                       max ox1 ox2, max oy1 oy2])\<rparr>],
                                  original_size = Some [w, h]\<rparr>)],
                            has_unsaved_changes := True\<rparr>)))
             | Some d \<Rightarrow>
                 (case annotations d of
                    None \<Rightarrow> Inl KeyError
                  | Some anns \<Rightarrow>
                      Inr (reset_drawing_state
                        (s\<lparr>self_annotations :=
                             dict_set (basename path)
                               (d\<lparr>annotations := Some (anns @
                                    [\<lparr>label = Some (current_class_var s),
                                      ann_type = Some ''rectangle'',
                                      coordinates_original =
                                        Some (Scalars [min ox1 ox2, min oy1 oy2,
                                                       max ox1 ox2, max oy1 oy2])\<rparr>])\<rparr>)
                               (self_annotations s),
                            has_unsaved_changes := True\<rparr>))))))"
  using assms
  by (simp add: on_mouse_release_def Let_def split: option.splits prod.splits)

text \<open>
  C10: when the release handler returns with the rectangle tool, either the store is
  unchanged, or exactly one rectangle was appended to one image, with the coordinates
  \<open>[min x, min y, max x, max y]\<close> of the two corners in original space, so that
  \<open>x1 \<le> x2\<close>, \<open>y1 \<le> y2\<close> and the extent is at least 1 on each axis; a gesture whose
  extent is below 1 on an axis leaves the store and the dirty flag as they were.
\<close>

theorem rectangle_release_normalized:
  assumes "drawing_tool_var s = ''rectangle''"
    and "start_canvas s = Some (sx, sy)"
    and "view_to_original_coords cw ch s (sx, sy) = (ox1, oy1)"
    and "view_to_original_coords cw ch s (ex, ey) = (ox2, oy2)"
    and "on_mouse_release cw ch ex ey s = Inr s'"
  shows "(self_annotations s' = self_annotations s
          \<or> (\<exists>img x1 y1 x2 y2.
                stored_annotations s' img =
                  stored_annotations s img @
                    [\<lparr>label = Some (current_class_var s), ann_type = Some ''rectangle'',
                      coordinates_original = Some (Scalars [x1, y1, x2, y2])\<rparr>]
                \<and> (\<forall>img'. img' \<noteq> img \<longrightarrow>
                      stored_annotations s' img' = stored_annotations s img')
                \<and> x1 = min ox1 ox2 \<and> y1 = min oy1 oy2
                \<and> x2 = max ox1 ox2 \<and> y2 = max oy1 oy2
                \<and> x1 \<le> x2 \<and> y1 \<le> y2 \<and> 1 \<le> x2 - x1 \<and> 1 \<le> y2 - y1))
       \<and> (\<bar>ox1 - ox2\<bar> < 1 \<or> \<bar>oy1 - oy2\<bar> < 1 \<longrightarrow>
            self_annotations s' = self_annotations s
            \<and> has_unsaved_changes s' = has_unsaved_changes s)"
proof (cases "is_panning s \<or> sx = 0 \<or> current_class_var s = []
         \<or> \<not> (1 \<le> \<bar>ox1 - ox2\<bar> \<and> 1 \<le> \<bar>oy1 - oy2\<bar>)")
  case True
  then have "s' = reset_drawing_state s"
    using on_mouse_release_rectangle [OF assms(1-4)] assms(5) by simp
  then show ?thesis
    by (simp add: reset_drawing_state_def)
next
  case False
  then have ext: "1 \<le> \<bar>ox1 - ox2\<bar>" "1 \<le> \<bar>oy1 - oy2\<bar>"
    by simp_all
  have size: "min ox1 ox2 \<le> max ox1 ox2" "min oy1 oy2 \<le> max oy1 oy2"
    "1 \<le> max ox1 ox2 - min ox1 ox2" "1 \<le> max oy1 oy2 - min oy1 oy2"
    using ext by (auto simp add: min_def max_def abs_if split: if_splits)
  let ?new = "\<lparr>label = Some (current_class_var s), ann_type = Some ''rectangle'',
                coordinates_original =
                  Some (Scalars [min ox1 ox2, min oy1 oy2, max ox1 ox2, max oy1 oy2])\<rparr>"
  obtain path where path: "current_image_path s = Some path"
    using on_mouse_release_rectangle [OF assms(1-4)] assms(5) False
    by (cases "current_image_path s") simp_all
  have app: "stored_annotations s' (basename path) =
               stored_annotations s (basename path) @ [?new]
           \<and> (\<forall>img'. img' \<noteq> basename path \<longrightarrow>
                  stored_annotations s' img' = stored_annotations s img')"
  proof (cases "map_of (self_annotations s) (basename path)")
    case None
    then obtain w h where img: "original_pil_image s = Some (w, h)"
      using on_mouse_release_rectangle [OF assms(1-4)] assms(5) False path
      by (cases "original_pil_image s") auto
    have "s' = reset_drawing_state
                 (s\<lparr>self_annotations :=
                      self_annotations s @
                        [(basename path,
                          \<lparr>annotations = Some [?new], original_size = Some [w, h]\<rparr>)],
                     has_unsaved_changes := True\<rparr>)"
      using on_mouse_release_rectangle [OF assms(1-4)] assms(5) False path None img by simp
    then show ?thesis
      using None
      by (simp add: stored_annotations_def reset_drawing_state_def map_of_append_new
          del: map_of_append)
  next
    case (Some d)
    then obtain anns where anns: "annotations d = Some anns"
      using on_mouse_release_rectangle [OF assms(1-4)] assms(5) False path
      by (cases "annotations d") auto
    have "s' = reset_drawing_state
                 (s\<lparr>self_annotations :=
                      dict_set (basename path) (d\<lparr>annotations := Some (anns @ [?new])\<rparr>)
                        (self_annotations s),
                     has_unsaved_changes := True\<rparr>)"
      using on_mouse_release_rectangle [OF assms(1-4)] assms(5) False path Some anns by simp
    then show ?thesis
      using Some anns
      by (simp add: stored_annotations_def reset_drawing_state_def map_of_dict_set)
  qed
  have "\<exists>img x1 y1 x2 y2.
                stored_annotations s' img =
                  stored_annotations s img @
                    [\<lparr>label = Some (current_class_var s), ann_type = Some ''rectangle'',
                      coordinates_original = Some (Scalars [x1, y1, x2, y2])\<rparr>]
                \<and> (\<forall>img'. img' \<noteq> img \<longrightarrow>
                      stored_annotations s' img' = stored_annotations s img')
                \<and> x1 = min ox1 ox2 \<and> y1 = min oy1 oy2
                \<and> x2 = max ox1 ox2 \<and> y2 = max oy1 oy2
                \<and> x1 \<le> x2 \<and> y1 \<le> y2 \<and> 1 \<le> x2 - x1 \<and> 1 \<le> y2 - y1"
    using app size by blast
  then show ?thesis
    using ext by simp
qed

theorem rectangle_release_normalized_witness:
  "drawing_tool_var (centred_app\<lparr>start_canvas := Some (20, 20)\<rparr>) = ''rectangle''
   \<and> on_mouse_release 100 100 60 60 (centred_app\<lparr>start_canvas := Some (20, 20)\<rparr>)
       = Inr drawn_app
   \<and> stored_annotations drawn_app ''a.png'' =
       [\<lparr>label = Some ''object'', ann_type = Some ''rectangle'',
         coordinates_original = Some (Scalars [10, 10, 30, 30])\<rparr>]
   \<and> (self_annotations drawn_app = self_annotations (centred_app\<lparr>start_canvas := Some (20, 20)\<rparr>)
       \<or> (\<exists>img x1 y1 x2 y2.
             stored_annotations drawn_app img =
               stored_annotations (centred_app\<lparr>start_canvas := Some (20, 20)\<rparr>) img @
                 [\<lparr>label = Some ''object'', ann_type = Some ''rectangle'',
                   coordinates_original = Some (Scalars [x1, y1, x2, y2])\<rparr>]
             \<and> x1 = 10 \<and> y1 = 10 \<and> x2 = 30 \<and> y2 = 30))"
proof -
  have tool: "drawing_tool_var (centred_app\<lparr>start_canvas := Some (20, 20)\<rparr>) = ''rectangle''"
    and start: "start_canvas (centred_app\<lparr>start_canvas := Some (20, 20)\<rparr>) = Some (20, 20)"
    and cls: "current_class_var (centred_app\<lparr>start_canvas := Some (20, 20)\<rparr>) = ''object''"
    by (simp_all add: centred_app_fields)
  have stored: "stored_annotations drawn_app ''a.png'' =
       [\<lparr>label = Some ''object'', ann_type = Some ''rectangle'',
         coordinates_original = Some (Scalars [10, 10, 30, 30])\<rparr>]"
    by (simp add: stored_annotations_def drawn_app_def drawn_record_def object_rectangle_def)
  show ?thesis
    using rectangle_release_normalized [OF tool start view_to_original_centred
        release_draws_rectangle] tool release_draws_rectangle stored cls
    by auto
qed

end
